theory Spec2Isabelle
  imports Main "HOL-Library.AList" "HOL-Library.Word"
begin

section \<open>The image-processing handler (src/functions/image-processing/index.mjs)\<close>

text \<open>
  The handler is one asynchronous JavaScript function. Its collaborators (the HTTP
  fetch, the image engine, the bucket client, the process environment and the clock)
  are inputs of the model, gathered in the record \<open>env\<close>; everything the handler
  itself decides is computed by the definitions below. A JavaScript string is modelled
  by the \<open>string\<close> of its UTF-8 bytes. The handler cuts strings at \<open>/\<close>, \<open>,\<close> and \<open>=\<close>
  and replaces single ASCII characters, which acts the same on the UTF-8 bytes as on
  UTF-16 code units; \<open>parseInt\<close>, which knows white space beyond ASCII, reads it in its
  UTF-8 form.
\<close>

subsection \<open>JavaScript values and built-ins the handler uses\<close>

text \<open>A property value of \<open>operationsJSON\<close>: a string, or \<open>undefined\<close>.\<close>

datatype jsval = Undefined | Str string

text \<open>
  The numbers \<open>parseInt\<close> can return: \<open>NaN\<close>, an integer that a double holds exactly
  (\<open>Num\<close>), the negative zero, and the two infinities.
\<close>

datatype jsnum = NaN | Num int | NegZero | Infinity | NegInfinity

text \<open>Truthiness of a property value, as tested by \<open>if (operationsJSON['width'])\<close>.\<close>

fun truthy :: "jsval \<Rightarrow> bool" where
  "truthy Undefined = False"
| "truthy (Str s) = (s \<noteq> [])"

text \<open>\<open>String.prototype.split\<close> with a one-character separator: never the empty array.\<close>

fun split_on :: "char \<Rightarrow> string \<Rightarrow> string list" where
  "split_on c [] = [[]]"
| "split_on c (x # xs) =
     (if x = c then [] # split_on c xs
      else (case split_on c xs of
              [] \<Rightarrow> [[x]]
            | y # ys \<Rightarrow> (x # y) # ys))"

text \<open>\<open>Array.prototype.join\<close>.\<close>

fun join :: "string \<Rightarrow> string list \<Rightarrow> string" where
  "join sep [] = []"
| "join sep [x] = x"
| "join sep (x # y # ys) = x @ sep @ join sep (y # ys)"

text \<open>\<open>s.replace(/a/g, "b")\<close> for single characters \<open>a\<close> and \<open>b\<close>.\<close>

definition replace_all :: "char \<Rightarrow> char \<Rightarrow> string \<Rightarrow> string" where
  "replace_all a b s = map (\<lambda>c. if c = a then b else c) s"

text \<open>
  The white space and line terminators of JavaScript, by their UTF-8 bytes. One byte:
  tab, line feed, vertical tab, form feed, carriage return, space. Two bytes: U+00A0.
  Three bytes: U+1680, U+2000 to U+200A, U+2028, U+2029, U+202F, U+205F, U+3000 and
  U+FEFF.
\<close>

definition ws1 :: "nat \<Rightarrow> bool" where
  "ws1 a = (a = 9 \<or> a = 10 \<or> a = 11 \<or> a = 12 \<or> a = 13 \<or> a = 32)"

definition ws2 :: "nat \<Rightarrow> nat \<Rightarrow> bool" where
  "ws2 a b = (a = 194 \<and> b = 160)"

definition ws3 :: "nat \<Rightarrow> nat \<Rightarrow> nat \<Rightarrow> bool" where
  "ws3 a b c =
     (a = 225 \<and> b = 154 \<and> c = 128
      \<or> a = 226 \<and> b = 128 \<and> (128 \<le> c \<and> c \<le> 138 \<or> c = 168 \<or> c = 169 \<or> c = 175)
      \<or> a = 226 \<and> b = 129 \<and> c = 159
      \<or> a = 227 \<and> b = 128 \<and> c = 128
      \<or> a = 239 \<and> b = 187 \<and> c = 191)"

text \<open>The string without its leading white space.\<close>

fun skip_space :: "string \<Rightarrow> string" where
  "skip_space (a # b # c # r) =
     (if ws1 (of_char a) then skip_space (b # c # r)
      else if ws2 (of_char a) (of_char b) then skip_space (c # r)
      else if ws3 (of_char a) (of_char b) (of_char c) then skip_space r
      else a # b # c # r)"
| "skip_space [a, b] =
     (if ws1 (of_char a) then skip_space [b]
      else if ws2 (of_char a) (of_char b) then []
      else [a, b])"
| "skip_space [a] = (if ws1 (of_char a) then [] else [a])"
| "skip_space [] = []"

text \<open>
  The double nearest to a non-negative integer (ties to the even mantissa), as the
  integer it denotes; \<open>None\<close> when the integer rounds to infinity. Below \<open>2^53\<close> every
  integer is a double.
\<close>

fun bitlen :: "nat \<Rightarrow> nat" where
  "bitlen n = (if n = 0 then 0 else Suc (bitlen (n div 2)))"

definition to_double :: "nat \<Rightarrow> nat option" where
  "to_double n =
     (if n < 2 ^ 53 then Some n
      else (let e = bitlen n - 53;
                q = n div 2 ^ e;
                r = n mod 2 ^ e;
                m = (if 2 ^ e < 2 * r \<or> (2 * r = 2 ^ e \<and> odd q) then q + 1 else q) * 2 ^ e
            in if m < 2 ^ 1024 then Some m else None))"

text \<open>
  \<open>parseInt(s)\<close> with no radix: leading white space is skipped, a sign is read, a
  prefix \<open>0x\<close> or \<open>0X\<close> selects radix 16, and the longest run of digits is the value,
  rounded to a double; with no digit the result is \<open>NaN\<close>, and a zero after a minus sign
  is the negative zero.
\<close>

definition digit_val :: "nat \<Rightarrow> char \<Rightarrow> nat option" where
  "digit_val radix c =
     (let n = (of_char c :: nat);
          d = (if 48 \<le> n \<and> n \<le> 57 then Some (n - 48)
               else if 97 \<le> n \<and> n \<le> 122 then Some (n - 87)
               else if 65 \<le> n \<and> n \<le> 90 then Some (n - 55)
               else None)
      in case d of None \<Rightarrow> None | Some v \<Rightarrow> if v < radix then Some v else None)"

definition strip_sign :: "string \<Rightarrow> bool \<times> string" where
  "strip_sign s =
     (case s of
        [] \<Rightarrow> (False, [])
      | c # r \<Rightarrow> if c = CHR ''-'' then (True, r)
                else if c = CHR ''+'' then (False, r)
                else (False, s))"

definition strip_prefix :: "string \<Rightarrow> nat \<times> string" where
  "strip_prefix s =
     (case s of
        a # b # r \<Rightarrow> if a = CHR ''0'' \<and> (b = CHR ''x'' \<or> b = CHR ''X'') then (16, r) else (10, s)
      | _ \<Rightarrow> (10, s))"

definition parseInt :: "string \<Rightarrow> jsnum" where
  "parseInt s =
     (let (neg, u) = strip_sign (skip_space s);
          (radix, w) = strip_prefix u;
          z = takeWhile (\<lambda>c. digit_val radix c \<noteq> None) w
      in if z = [] then NaN
         else (case to_double (foldl (\<lambda>a c. a * radix + the (digit_val radix c)) 0 z) of
                 None \<Rightarrow> if neg then NegInfinity else Infinity
               | Some m \<Rightarrow>
                   if neg then (if m = 0 then NegZero else Num (- int m))
                   else Num (int m)))"

text \<open>\<open>parseInt\<close> of a value that may be \<open>undefined\<close> (its text is \<open>undefined\<close>: no digit).\<close>

fun parseInt_val :: "jsval \<Rightarrow> jsnum" where
  "parseInt_val Undefined = NaN"
| "parseInt_val (Str s) = parseInt s"

text \<open>\<open>n > m\<close> on numbers: a comparison with \<open>NaN\<close> is false.\<close>

fun js_gt :: "nat \<Rightarrow> jsnum \<Rightarrow> bool" where
  "js_gt n NaN = False"
| "js_gt n (Num m) = (int n > m)"
| "js_gt n NegZero = (n > 0)"
| "js_gt n Infinity = False"
| "js_gt n NegInfinity = True"

text \<open>The decimal text of a non-negative integer, as string concatenation produces it.\<close>

fun show_nat :: "nat \<Rightarrow> string" where
  "show_nat n =
     (if n < 10 then [''0123456789'' ! n]
      else show_nat (n div 10) @ [''0123456789'' ! (n mod 10)])"

subsection \<open>The operation set\<close>

text \<open>
  \<open>Object.fromEntries(operationsPrefix.split(',').map(operation => operation.split('=')))\<close>.
  An entry is the array of the pieces of a token: its element 0 is the key, its element
  1 the value (\<open>undefined\<close> when the token has no \<open>=\<close>); further pieces are not read.
  The object is an association list with one pair per key, in the order of first
  insertion; a later entry with a key already present overwrites its value. The handler
  never enumerates the object.
\<close>

type_synonym js_object = "(string \<times> jsval) list"

definition entry :: "string \<Rightarrow> string \<times> jsval" where
  "entry operation =
     (case split_on CHR ''='' operation of
        [] \<Rightarrow> ([], Undefined)
      | [k] \<Rightarrow> (k, Undefined)
      | k # v # _ \<Rightarrow> (k, Str v))"

definition fromEntries :: "(string \<times> jsval) list \<Rightarrow> js_object" where
  "fromEntries es = fold (\<lambda>(k, v). AList.update k v) es []"

definition operations :: "string \<Rightarrow> js_object" where
  "operations operationsPrefix = fromEntries (map entry (split_on CHR '','' operationsPrefix))"

text \<open>Property read \<open>obj[k]\<close>: \<open>undefined\<close> for a missing key.\<close>

definition get :: "js_object \<Rightarrow> string \<Rightarrow> jsval" where
  "get obj k = (case map_of obj k of None \<Rightarrow> Undefined | Some v \<Rightarrow> v)"

subsection \<open>The calls made on the image engine\<close>

type_synonym bytes = "8 word list"

record resizing_options =
  width :: "jsnum option"
  height :: "jsnum option"

text \<open>
  The engine (Sharp) is driven by a chain of calls ended by \<open>toBuffer()\<close>. The chain
  is data here; the engine itself is the function \<open>codec\<close> of the environment.
\<close>

datatype sharp_call =
    Resize resizing_options
  | Rotate
  | ToFormat string "jsnum option"

record image_metadata =
  orientation :: "nat option"

text \<open>Lines 62 to 64: the resizing options.\<close>

definition resizingOptions :: "js_object \<Rightarrow> resizing_options" where
  "resizingOptions operationsJSON =
     \<lparr> width = (if truthy (get operationsJSON ''width'')
                then Some (parseInt_val (get operationsJSON ''width'')) else None),
       height = (if truthy (get operationsJSON ''height'')
                 then Some (parseInt_val (get operationsJSON ''height'')) else None) \<rparr>"

text \<open>Lines 71 to 78: the \<open>switch\<close> on the format, giving the content type and \<open>isLossy\<close>.\<close>

definition format_switch :: "string \<Rightarrow> string \<times> bool" where
  "format_switch f =
     (if f = ''jpeg'' then (''image/jpeg'', True)
      else if f = ''gif'' then (''image/gif'', False)
      else if f = ''webp'' then (''image/webp'', True)
      else if f = ''png'' then (''image/png'', False)
      else if f = ''avif'' then (''image/avif'', True)
      else (''image/jpeg'', True))"

text \<open>
  Lines 65 to 87: the chain of engine calls and the content type. An empty options
  object is truthy, so \<open>resize\<close> is always called; \<open>rotate\<close> is called when the
  orientation is a non-zero number.
\<close>

definition sharp_calls :: "js_object \<Rightarrow> image_metadata \<Rightarrow> sharp_call list" where
  "sharp_calls operationsJSON imageMetadata =
     [Resize (resizingOptions operationsJSON)]
     @ (case orientation imageMetadata of
          None \<Rightarrow> []
        | Some n \<Rightarrow> if n \<noteq> 0 then [Rotate] else [])
     @ (case get operationsJSON ''format'' of
          Undefined \<Rightarrow> []
        | Str f \<Rightarrow>
            if f = [] then []
            else if truthy (get operationsJSON ''quality'') \<and> snd (format_switch f)
            then [ToFormat f (Some (parseInt_val (get operationsJSON ''quality'')))]
            else [ToFormat f None])"

definition resolve_content_type :: "js_object \<Rightarrow> string option \<Rightarrow> string option" where
  "resolve_content_type operationsJSON contentType =
     (case get operationsJSON ''format'' of
        Undefined \<Rightarrow> (if contentType = Some ''image/svg+xml'' then Some ''image/png'' else contentType)
      | Str f \<Rightarrow>
          if f = [] then (if contentType = Some ''image/svg+xml'' then Some ''image/png'' else contentType)
          else Some (fst (format_switch f)))"

subsection \<open>Environment, request and results\<close>

datatype fetch_result =
    NetworkError
  | Response (ok: bool) (buffer: "bytes option") (content_type: "string option")

record put_object =
  Body :: bytes
  Bucket :: string
  Key :: string
  ContentType :: "string option"
  Metadata_cache_control :: "string option"

text \<open>
  \<open>fetch\<close>: the reply to a GET of a URL. \<open>metadata\<close>: what the engine reads from the
  source bytes (\<open>None\<close> when the constructor or \<open>metadata()\<close> throws). \<open>codec\<close>: the
  bytes \<open>toBuffer()\<close> gives for a chain of calls on the source bytes (\<open>None\<close> when any
  call of the chain throws).
  \<open>s3_send\<close>: whether the put succeeds. The three name fields are the process
  environment variables; the three durations are the readings
  \<open>parseInt(performance.now() - startTime)\<close> of the clock.
\<close>

record env =
  fetch :: "string \<Rightarrow> fetch_result"
  metadata :: "bytes \<Rightarrow> image_metadata option"
  codec :: "bytes \<Rightarrow> sharp_call list \<Rightarrow> bytes option"
  s3_send :: "put_object \<Rightarrow> bool"
  transformedImageBucketName :: "string option"
  transformedImageCacheTTL :: "string option"
  maxImageSize :: "string option"
  dur_download :: nat
  dur_transform :: nat
  dur_upload :: nat

text \<open>\<open>event.requestContext.http\<close>: \<open>None\<close> when \<open>requestContext\<close> or \<open>http\<close> is missing.\<close>

record http_request =
  http_method :: string
  path :: string

record event =
  http :: "http_request option"

text \<open>
  The object the handler returns. \<open>Inline\<close> carries the transformed bytes, which the
  response holds as their base64 text. \<open>Unhandled\<close> is an exception that leaves the
  handler: the engine's \<open>metadata()\<close> is awaited outside every \<open>try\<close>.
\<close>

datatype outcome =
    Failure nat string
  | Redirect (location: string) (redirect_cache_control: string) (redirect_timing: string)
  | Inline (body: bytes) (inline_content_type: "string option")
           (inline_cache_control: "string option") (inline_timing: string)
  | Unhandled

fun statusCode :: "outcome \<Rightarrow> nat option" where
  "statusCode (Failure c m) = Some c"
| "statusCode (Redirect l c t) = Some 302"
| "statusCode (Inline b ct cc t) = Some 200"
| "statusCode Unhandled = None"

text \<open>
  The effects of one invocation: the put commands sent to the bucket client, and the
  messages given to \<open>logError\<close> (the progress lines of \<open>console.log\<close> are left out).
\<close>

record effects =
  puts :: "put_object list"
  errors :: "string list"

definition no_effects :: effects where
  "no_effects = \<lparr> puts = [], errors = [] \<rparr>"

definition logError :: "string \<Rightarrow> effects \<Rightarrow> effects" where
  "logError msg eff = eff \<lparr> errors := errors eff @ [msg] \<rparr>"

definition sendError :: "nat \<Rightarrow> string \<Rightarrow> effects \<Rightarrow> outcome \<times> effects" where
  "sendError code msg eff = (Failure code msg, logError msg eff)"

definition BASE_URL :: string where
  "BASE_URL = ''https://starlightphotos.s3.us-west-001.backblazeb2.com''"

definition MAX_IMAGE_SIZE :: "env \<Rightarrow> jsnum" where
  "MAX_IMAGE_SIZE e = (case maxImageSize e of None \<Rightarrow> NaN | Some s \<Rightarrow> parseInt s)"

text \<open>A bucket name is used when it is set and not empty.\<close>

definition bucket_configured :: "env \<Rightarrow> string option" where
  "bucket_configured e =
     (case transformedImageBucketName e of
        None \<Rightarrow> None
      | Some b \<Rightarrow> if b = [] then None else Some b)"

subsection \<open>The stages of the handler\<close>

text \<open>Lines 23 to 30: the directive is the last path segment, the image path the rest
  without its first segment.\<close>

definition operationsPrefix_of :: "string \<Rightarrow> string" where
  "operationsPrefix_of p = last (split_on CHR ''/'' p)"

definition originalImagePath_of :: "string \<Rightarrow> string" where
  "originalImagePath_of p = join ''/'' (tl (butlast (split_on CHR ''/'' p)))"

definition imageUrl_of :: "string \<Rightarrow> string" where
  "imageUrl_of originalImagePath =
     BASE_URL @ ''/'' @ replace_all CHR '' '' CHR ''+'' originalImagePath"

text \<open>Lines 37 to 49: the download; \<open>None\<close> is the \<open>catch\<close> branch.\<close>

definition download :: "env \<Rightarrow> string \<Rightarrow> (bytes \<times> string option) option" where
  "download e imageUrl =
     (case fetch e imageUrl of
        NetworkError \<Rightarrow> None
      | Response is_ok buf ct \<Rightarrow>
          if \<not> is_ok then None
          else (case buf of None \<Rightarrow> None | Some b \<Rightarrow> Some (b, ct)))"

text \<open>Lines 60 to 91: the transformation; \<open>None\<close> is the \<open>catch\<close> branch.\<close>

definition transform :: "env \<Rightarrow> bytes \<Rightarrow> string option \<Rightarrow> image_metadata \<Rightarrow> js_object
    \<Rightarrow> (bytes \<times> string option) option" where
  "transform e originalImageBody contentType imageMetadata operationsJSON =
     (case codec e originalImageBody (sharp_calls operationsJSON imageMetadata) of
        None \<Rightarrow> None
      | Some transformedImage \<Rightarrow>
          Some (transformedImage, resolve_content_type operationsJSON contentType))"

definition imageTooBig :: "env \<Rightarrow> bytes \<Rightarrow> bool" where
  "imageTooBig e transformedImage = js_gt (length transformedImage) (MAX_IMAGE_SIZE e)"

definition timing_download :: "env \<Rightarrow> string" where
  "timing_download e = ''img-download;dur='' @ show_nat (dur_download e)"

definition timing_transform :: "env \<Rightarrow> string" where
  "timing_transform e = timing_download e @ '',img-transform;dur='' @ show_nat (dur_transform e)"

definition timing_upload :: "env \<Rightarrow> string" where
  "timing_upload e = timing_transform e @ '',img-upload;dur='' @ show_nat (dur_upload e)"

text \<open>Lines 102 to 110: the put command for the transformed image.\<close>

definition putImageCommand :: "env \<Rightarrow> string \<Rightarrow> string \<Rightarrow> string \<Rightarrow> bytes \<Rightarrow> string option
    \<Rightarrow> put_object" where
  "putImageCommand e bucket originalImagePath operationsPrefix transformedImage contentType =
     \<lparr> Body = transformedImage, Bucket = bucket,
       Key = originalImagePath @ ''/'' @ operationsPrefix,
       ContentType = contentType,
       Metadata_cache_control = transformedImageCacheTTL e \<rparr>"

text \<open>Lines 130 to 141: the response when no redirect was sent.\<close>

definition final_response :: "env \<Rightarrow> bytes \<Rightarrow> string option \<Rightarrow> string \<Rightarrow> effects
    \<Rightarrow> outcome \<times> effects" where
  "final_response e transformedImage contentType timingLog eff =
     (if imageTooBig e transformedImage
      then sendError 403 ''Requested transformed image is too big'' eff
      else (Inline transformedImage contentType (transformedImageCacheTTL e) timingLog, eff))"

text \<open>Lines 95 to 141: the size check, the cache write and the response.\<close>

definition respond :: "env \<Rightarrow> string \<Rightarrow> string \<Rightarrow> bytes \<Rightarrow> string option \<Rightarrow> outcome \<times> effects" where
  "respond e originalImagePath operationsPrefix transformedImage contentType =
     (case bucket_configured e of
        None \<Rightarrow> final_response e transformedImage contentType (timing_transform e) no_effects
      | Some bucket \<Rightarrow>
          (let cmd = putImageCommand e bucket originalImagePath operationsPrefix
                       transformedImage contentType;
               sent = no_effects \<lparr> puts := [cmd] \<rparr>
           in if s3_send e cmd
              then (if imageTooBig e transformedImage
                    then (Redirect (''/'' @ originalImagePath @ ''?'' @
                                      replace_all CHR '','' CHR ''&'' operationsPrefix)
                                   ''private,no-store'' (timing_upload e), sent)
                    else final_response e transformedImage contentType (timing_upload e) sent)
              else final_response e transformedImage contentType (timing_transform e)
                     (logError ''Could not upload transformed image to S3'' sent)))"

text \<open>The handler, lines 19 to 142.\<close>

definition handler :: "env \<Rightarrow> event \<Rightarrow> outcome \<times> effects" where
  "handler e ev =
     (case http ev of
        None \<Rightarrow> sendError 400 ''Only GET method is supported'' no_effects
      | Some h \<Rightarrow>
          if http_method h \<noteq> ''GET''
          then sendError 400 ''Only GET method is supported'' no_effects
          else
            (let operationsPrefix = operationsPrefix_of (path h);
                 originalImagePath = originalImagePath_of (path h);
                 imageUrl = imageUrl_of originalImagePath
             in case download e imageUrl of
                  None \<Rightarrow> sendError 500 (''Error downloading original image '' @ imageUrl) no_effects
                | Some (originalImageBody, contentType) \<Rightarrow>
                    (case metadata e originalImageBody of
                       None \<Rightarrow> (Unhandled, no_effects)
                     | Some imageMetadata \<Rightarrow>
                         (case transform e originalImageBody contentType imageMetadata
                                 (operations operationsPrefix) of
                            None \<Rightarrow> sendError 500 ''error transforming image'' no_effects
                          | Some (transformedImage, contentType') \<Rightarrow>
                              respond e originalImagePath operationsPrefix
                                transformedImage contentType'))))"

text \<open>
  What the handler holds when it reaches the size check (line 95): the transformed bytes
  and the resolved content type; \<open>None\<close> when the invocation ended before.
\<close>

definition transformed :: "env \<Rightarrow> event \<Rightarrow> (bytes \<times> string option) option" where
  "transformed e ev =
     (case http ev of
        None \<Rightarrow> None
      | Some h \<Rightarrow>
          if http_method h \<noteq> ''GET'' then None
          else
            (case download e (imageUrl_of (originalImagePath_of (path h))) of
               None \<Rightarrow> None
             | Some (originalImageBody, contentType) \<Rightarrow>
                 (case metadata e originalImageBody of
                    None \<Rightarrow> None
                  | Some imageMetadata \<Rightarrow>
                      transform e originalImageBody contentType imageMetadata
                        (operations (operationsPrefix_of (path h))))))"

subsection \<open>An example environment\<close>

text \<open>
  The closed instances below run the handler in this environment. Its engine checks the
  parameters of each call the way Sharp documents them (a dimension is a positive
  integer, a quality an integer from 1 to 100, a format one of the listed names, all of
  which Sharp accepts) and gives back the source bytes; its store holds a five-byte PNG
  and a two-byte SVG.
\<close>

fun valid_dimension :: "jsnum option \<Rightarrow> bool" where
  "valid_dimension None = True"
| "valid_dimension (Some (Num n)) = (0 < n)"
| "valid_dimension (Some x) = False"

fun valid_quality :: "jsnum option \<Rightarrow> bool" where
  "valid_quality None = True"
| "valid_quality (Some (Num n)) = (1 \<le> n \<and> n \<le> 100)"
| "valid_quality (Some x) = False"

fun valid_call :: "sharp_call \<Rightarrow> bool" where
  "valid_call (Resize r) = (valid_dimension (width r) \<and> valid_dimension (height r))"
| "valid_call Rotate = True"
| "valid_call (ToFormat f q) =
     (List.member [''jpeg'', ''jpg'', ''png'', ''webp'', ''gif'', ''avif'', ''tiff'', ''heif''] f
      \<and> valid_quality q)"

definition strict_codec :: "bytes \<Rightarrow> sharp_call list \<Rightarrow> bytes option" where
  "strict_codec src calls = (if list_all valid_call calls then Some src else None)"

definition example_fetch :: "string \<Rightarrow> fetch_result" where
  "example_fetch url =
     (if url = BASE_URL @ ''/images/rio/1.png''
      then Response True (Some [1, 2, 3, 4, 5]) (Some ''image/png'')
      else if url = BASE_URL @ ''/images/rio/logo.svg''
      then Response True (Some [6, 7]) (Some ''image/svg+xml'')
      else Response False None None)"

definition example_env :: "bool \<Rightarrow> string option \<Rightarrow> string option \<Rightarrow> env" where
  "example_env sends bucket limit =
     \<lparr> fetch = example_fetch,
       metadata = (\<lambda>b. Some \<lparr> orientation = None \<rparr>),
       codec = strict_codec,
       s3_send = (\<lambda>cmd. sends),
       transformedImageBucketName = bucket,
       transformedImageCacheTTL = Some ''max-age=31622400'',
       maxImageSize = limit,
       dur_download = 12,
       dur_transform = 34,
       dur_upload = 5 \<rparr>"

definition get_request :: "string \<Rightarrow> event" where
  "get_request p = \<lparr> http = Some \<lparr> http_method = ''GET'', path = p \<rparr> \<rparr>"

section \<open>Properties of the built-ins\<close>

lemma split_on_nonempty: "split_on c s \<noteq> []"
  by (induction s) (auto split: list.splits)

lemma split_on_no_sep: "c \<notin> set t \<Longrightarrow> split_on c t = [t]"
  by (induction t) auto

lemma split_on_append_sep: "c \<notin> set t \<Longrightarrow> split_on c (t @ c # r) = t # split_on c r"
  by (induction t) (auto split: list.splits simp: split_on_nonempty)

lemma split_on_join:
  "ts \<noteq> [] \<Longrightarrow> \<forall>t \<in> set ts. c \<notin> set t \<Longrightarrow> split_on c (join [c] ts) = ts"
  by (induction "[c]" ts rule: join.induct) (auto simp: split_on_no_sep split_on_append_sep)

lemma join_split_on: "join [b] (split_on a s) = replace_all a b s"
proof (induction s)
  case Nil
  show ?case by (simp add: replace_all_def)
next
  case (Cons x s)
  obtain y ys where sp: "split_on a s = y # ys"
    using split_on_nonempty [of a s] by (cases "split_on a s") auto
  have j: "join [b] ((x # y) # ys) = x # join [b] (y # ys)"
    by (cases ys) auto
  have k: "join [b] ([] # y # ys) = b # join [b] (y # ys)"
    by simp
  from Cons sp j k show ?case
    by (auto simp: replace_all_def)
qed

section \<open>Properties of the operation set\<close>

lemma map_of_fold_update:
  "map_of (fold (\<lambda>(k, v). AList.update k v) es acc) = map_of (rev es @ acc)"
proof (induction es arbitrary: acc)
  case Nil
  show ?case by simp
next
  case (Cons e es)
  obtain k v where e: "e = (k, v)" by (cases e)
  have "map_of (fold (\<lambda>(k, v). AList.update k v) (e # es) acc)
        = map_of (rev es @ AList.update k v acc)"
    using Cons [of "AList.update k v acc"] e by simp
  also have "\<dots> = map_of (rev es @ (k, v) # acc)"
    by (simp add: update_conv')
  finally show ?case using e by simp
qed

lemma map_of_fromEntries: "map_of (fromEntries es) = map_of (rev es)"
  by (simp add: fromEntries_def map_of_fold_update)

lemma distinct_fold_update:
  "distinct (map fst acc) \<Longrightarrow> distinct (map fst (fold (\<lambda>(k, v). AList.update k v) es acc))"
  by (induction es arbitrary: acc) (auto simp: distinct_update)

lemma distinct_fromEntries: "distinct (map fst (fromEntries es))"
  by (simp add: fromEntries_def distinct_fold_update)

lemma get_fromEntries_last:
  assumes "k \<notin> fst ` set post"
  shows "get (fromEntries (pre @ (k, v) # post)) k = v"
proof -
  have "map_of (rev post) k = None"
    using assms by (simp add: map_of_eq_None_iff)
  then show ?thesis
    by (simp add: get_def map_of_fromEntries map_add_def)
qed

lemma get_fromEntries_other:
  assumes "k \<noteq> k'"
  shows "get (fromEntries (pre @ (k', v) # post)) k = get (fromEntries (pre @ post)) k"
  using assms by (simp add: get_def map_of_fromEntries map_add_def split: option.splits)

lemma entry_three_pieces:
  assumes "CHR ''='' \<notin> set k" and "CHR ''='' \<notin> set v"
  shows "entry (k @ CHR ''='' # v @ CHR ''='' # r) = (k, Str v)"
proof -
  obtain y ys where "split_on CHR ''='' r = y # ys"
    using split_on_nonempty [of "CHR ''=''" r] by (cases "split_on CHR ''='' r") auto
  then show ?thesis
    using assms by (simp add: entry_def split_on_append_sep)
qed

lemma fst_entry:
  assumes "CHR ''='' \<notin> set k"
  shows "fst (entry (k @ CHR ''='' # r)) = k"
proof -
  obtain y ys where "split_on CHR ''='' r = y # ys"
    using split_on_nonempty [of "CHR ''=''" r] by (cases "split_on CHR ''='' r") auto
  then show ?thesis
    using assms by (simp add: entry_def split_on_append_sep)
qed

section \<open>The parsed directive\<close>

text \<open>
  C10. When a key occurs more than once in the directive, the operation set holds the
  value of its last occurrence: if the entries of the directive are \<open>pre\<close>, then
  \<open>(k, v)\<close>, then \<open>post\<close>, and \<open>k\<close> is not a key of \<open>post\<close>, reading \<open>k\<close> gives \<open>v\<close>,
  whatever \<open>pre\<close> holds for \<open>k\<close>. No key occurs twice in the operation set.
\<close>

theorem duplicate_key_last_wins:
  assumes "map entry (split_on CHR '','' d) = pre @ (k, v) # post"
    and "k \<notin> fst ` set post"
  shows "get (operations d) k = v \<and> distinct (map fst (operations d))"
  using assms by (simp add: operations_def get_fromEntries_last distinct_fromEntries)

theorem duplicate_key_last_wins_witness:
  "get (operations ''width=100,width=200'') ''width'' = Str ''200''
   \<and> distinct (map fst (operations ''width=100,width=200''))"
  using duplicate_key_last_wins
    [of "''width=100,width=200''" "[(''width'', Str ''100'')]" "''width''" "Str ''200''" "[]"]
  by (simp add: entry_def)

text \<open>
  C5, as the claim states it, fails: for the token \<open>key=v1=v2\<close> the operation set does
  not map \<open>key\<close> to \<open>v1=v2\<close>.
\<close>

theorem first_equals_only_counterexample:
  "get (operations ''key=v1=v2'') ''key'' \<noteq> Str ''v1=v2''"
  by (simp add: operations_def fromEntries_def entry_def get_def)

text \<open>
  C5, amended. A token is cut at every \<open>=\<close> and only the first two pieces are read: for
  a token \<open>k=v1=v2\<close>, where \<open>k\<close> and \<open>v1\<close> hold no \<open>=\<close>, the entry is \<open>k\<close> with the value
  \<open>v1\<close>, the text between the first and the second \<open>=\<close>; a directive made of that one
  token maps \<open>k\<close> to \<open>v1\<close>.
\<close>

theorem token_cut_at_every_equals:
  assumes "CHR ''='' \<notin> set k" and "CHR ''='' \<notin> set v1"
    and "CHR '','' \<notin> set (k @ v1 @ v2)"
  shows "entry (k @ ''='' @ v1 @ ''='' @ v2) = (k, Str v1)
         \<and> get (operations (k @ ''='' @ v1 @ ''='' @ v2)) k = Str v1"
proof -
  have e: "entry (k @ ''='' @ v1 @ ''='' @ v2) = (k, Str v1)"
    using entry_three_pieces [OF assms(1,2), of v2] by simp
  have "split_on CHR '','' (k @ ''='' @ v1 @ ''='' @ v2) = [k @ ''='' @ v1 @ ''='' @ v2]"
    using assms(3) by (intro split_on_no_sep) simp
  then have "operations (k @ ''='' @ v1 @ ''='' @ v2) = [(k, Str v1)]"
    using e by (simp add: operations_def fromEntries_def)
  then show ?thesis
    using e by (simp add: get_def)
qed

theorem token_cut_at_every_equals_witness:
  "entry ''key=v1=v2'' = (''key'', Str ''v1'')
   \<and> get (operations ''key=v1=v2'') ''key'' = Str ''v1''"
  using token_cut_at_every_equals [of "''key''" "''v1''" "''v2''"]
  by simp

section \<open>The handler after the transformation\<close>

lemma handler_respond:
  assumes "http ev = Some h" and "transformed e ev = Some (img, ct)"
  shows "handler e ev =
         respond e (originalImagePath_of (path h)) (operationsPrefix_of (path h)) img ct"
  using assms
  by (auto simp: handler_def transformed_def Let_def split: if_splits option.splits)

lemma handler_not_get:
  assumes "http ev = Some h" and "http_method h \<noteq> ''GET''"
  shows "handler e ev = sendError 400 ''Only GET method is supported'' no_effects"
  using assms by (simp add: handler_def)

lemma final_response_inline:
  assumes "fst (final_response e img ct t eff) = Inline bs ct' cc t'"
  shows "bs = img \<and> \<not> imageTooBig e img"
  using assms by (auto simp: final_response_def sendError_def split: if_splits)

lemma respond_inline:
  assumes "fst (respond e p d img ct) = Inline bs ct' cc t"
  shows "bs = img \<and> \<not> imageTooBig e img"
  using assms
  by (auto simp: respond_def Let_def split: option.splits if_splits
           dest: final_response_inline)

lemma handler_inline:
  assumes "fst (handler e ev) = Inline bs ct cc t"
  shows "\<not> imageTooBig e bs"
proof -
  from assms obtain h where h: "http ev = Some h"
    by (cases "http ev") (auto simp: handler_def sendError_def)
  from assms h obtain img ct0 where tr: "transformed e ev = Some (img, ct0)"
    by (cases "transformed e ev")
       (auto simp: handler_def transformed_def sendError_def Let_def
             split: if_splits option.splits)
  from assms handler_respond [OF h tr] respond_inline show ?thesis
    by metis
qed

text \<open>
  C9. A GET request whose fetch fails (a network error, or a reply that is not ok)
  ends at once with status 500 and the download message; no put command is sent.
\<close>

theorem fetch_failure_is_500:
  assumes "http ev = Some h" and "http_method h = ''GET''"
    and "fetch e (imageUrl_of (originalImagePath_of (path h))) = NetworkError
         \<or> (\<exists>buf ct. fetch e (imageUrl_of (originalImagePath_of (path h))) = Response False buf ct)"
  shows "handler e ev =
         (Failure 500 (''Error downloading original image '' @
                        imageUrl_of (originalImagePath_of (path h))),
          \<lparr> puts = [],
            errors = [''Error downloading original image '' @
                       imageUrl_of (originalImagePath_of (path h))] \<rparr>)"
proof -
  have "download e (imageUrl_of (originalImagePath_of (path h))) = None"
    using assms(3) by (auto simp: download_def)
  then show ?thesis
    using assms(1,2)
    by (simp add: handler_def Let_def sendError_def logError_def no_effects_def)
qed

theorem fetch_failure_is_500_witness:
  "handler (example_env True (Some ''cache'') (Some ''1000''))
           (get_request ''/images/rio/missing.png/width=100'') =
   (Failure 500 ''Error downloading original image https://starlightphotos.s3.us-west-001.backblazeb2.com/images/rio/missing.png'',
    \<lparr> puts = [],
      errors = [''Error downloading original image https://starlightphotos.s3.us-west-001.backblazeb2.com/images/rio/missing.png''] \<rparr>)"
  using fetch_failure_is_500
    [of "get_request ''/images/rio/missing.png/width=100''"
        "\<lparr> http_method = ''GET'', path = ''/images/rio/missing.png/width=100'' \<rparr>"
        "example_env True (Some ''cache'') (Some ''1000'')"]
  by (simp add: get_request_def example_env_def example_fetch_def imageUrl_of_def
        originalImagePath_of_def BASE_URL_def replace_all_def)

text \<open>
  C2. When the transformed image is longer than the configured maximum, a bucket is
  configured and the put succeeds, the handler returns the 302 redirect: its Location is
  \<open>/\<close>, the original image path, \<open>?\<close> and the directive with every comma replaced by
  \<open>&\<close> (which is the directive's tokens joined by \<open>&\<close>), and its Cache-Control is
  \<open>private,no-store\<close>.
\<close>

theorem oversized_redirect:
  assumes "http ev = Some h" and "transformed e ev = Some (img, ct)"
    and "imageTooBig e img"
    and "bucket_configured e = Some b"
    and "s3_send e (putImageCommand e b (originalImagePath_of (path h))
                      (operationsPrefix_of (path h)) img ct)"
  shows "handler e ev =
         (Redirect (''/'' @ originalImagePath_of (path h) @ ''?'' @
                      map (\<lambda>c. if c = CHR '','' then CHR ''&'' else c)
                        (operationsPrefix_of (path h)))
                   ''private,no-store'' (timing_upload e),
          \<lparr> puts = [putImageCommand e b (originalImagePath_of (path h))
                      (operationsPrefix_of (path h)) img ct],
            errors = [] \<rparr>)
         \<and> map (\<lambda>c. if c = CHR '','' then CHR ''&'' else c) (operationsPrefix_of (path h))
             = join ''&'' (split_on CHR '','' (operationsPrefix_of (path h)))"
proof -
  have "handler e ev =
        respond e (originalImagePath_of (path h)) (operationsPrefix_of (path h)) img ct"
    using assms(1,2) by (rule handler_respond)
  then have "handler e ev =
         (Redirect (''/'' @ originalImagePath_of (path h) @ ''?'' @
                      replace_all CHR '','' CHR ''&'' (operationsPrefix_of (path h)))
                   ''private,no-store'' (timing_upload e),
          \<lparr> puts = [putImageCommand e b (originalImagePath_of (path h))
                      (operationsPrefix_of (path h)) img ct],
            errors = [] \<rparr>)"
    using assms(3,4,5) by (simp add: respond_def Let_def no_effects_def)
  moreover have "join ''&'' (split_on CHR '','' (operationsPrefix_of (path h)))
                 = replace_all CHR '','' CHR ''&'' (operationsPrefix_of (path h))"
    by (rule join_split_on)
  ultimately show ?thesis
    by (simp add: replace_all_def)
qed

lemmas run_defs =
  handler_def transformed_def get_request_def example_env_def example_fetch_def
  operationsPrefix_of_def originalImagePath_of_def imageUrl_of_def BASE_URL_def
  replace_all_def download_def transform_def strict_codec_def sharp_calls_def
  resolve_content_type_def format_switch_def operations_def fromEntries_def entry_def
  get_def resizingOptions_def parseInt_def strip_sign_def strip_prefix_def ws1_def ws2_def
  ws3_def to_double_def
  digit_val_def sendError_def logError_def no_effects_def respond_def final_response_def
  putImageCommand_def imageTooBig_def MAX_IMAGE_SIZE_def bucket_configured_def
  timing_download_def timing_transform_def timing_upload_def Let_def

theorem oversized_redirect_witness:
  "transformed (example_env True (Some ''cache'') (Some ''3''))
     (get_request ''/images/rio/1.png/width=100,height=50'')
     = Some ([1, 2, 3, 4, 5], Some ''image/png'')
   \<and> imageTooBig (example_env True (Some ''cache'') (Some ''3'')) [1, 2, 3, 4, 5]
   \<and> handler (example_env True (Some ''cache'') (Some ''3''))
       (get_request ''/images/rio/1.png/width=100,height=50'')
     = (Redirect ''/images/rio/1.png?width=100&height=50'' ''private,no-store''
          ''img-download;dur=12,img-transform;dur=34,img-upload;dur=5'',
        \<lparr> puts = [\<lparr> Body = [1, 2, 3, 4, 5], Bucket = ''cache'',
                      Key = ''images/rio/1.png/width=100,height=50'',
                      ContentType = Some ''image/png'',
                      Metadata_cache_control = Some ''max-age=31622400'' \<rparr>],
          errors = [] \<rparr>)"
  using oversized_redirect
    [of "get_request ''/images/rio/1.png/width=100,height=50''"
        "\<lparr> http_method = ''GET'', path = ''/images/rio/1.png/width=100,height=50'' \<rparr>"
        "example_env True (Some ''cache'') (Some ''3'')"
        "[1, 2, 3, 4, 5]" "Some ''image/png''" "''cache''"]
  by (simp add: run_defs)

text \<open>
  C3. When the transformed image is longer than the configured maximum and either no
  bucket is configured or the put fails, the outcome is status 403. And whenever the
  handler returns the 200 response, the bytes it carries are not longer than the
  configured maximum.
\<close>

theorem oversized_never_inline:
  "(http ev = Some h \<and> transformed e ev = Some (img, ct) \<and> imageTooBig e img
    \<and> (bucket_configured e = None
        \<or> (\<exists>b. bucket_configured e = Some b
                \<and> \<not> s3_send e (putImageCommand e b (originalImagePath_of (path h))
                                  (operationsPrefix_of (path h)) img ct)))
    \<longrightarrow> fst (handler e ev) = Failure 403 ''Requested transformed image is too big'')
   \<and> (fst (handler e ev) = Inline bs ct' cc t
      \<longrightarrow> \<not> imageTooBig e bs
          \<and> (\<forall>m. MAX_IMAGE_SIZE e = Num m \<longrightarrow> int (length bs) \<le> m))"
proof (intro conjI impI)
  assume a: "http ev = Some h \<and> transformed e ev = Some (img, ct) \<and> imageTooBig e img
    \<and> (bucket_configured e = None
        \<or> (\<exists>b. bucket_configured e = Some b
                \<and> \<not> s3_send e (putImageCommand e b (originalImagePath_of (path h))
                                  (operationsPrefix_of (path h)) img ct)))"
  then have "handler e ev =
        respond e (originalImagePath_of (path h)) (operationsPrefix_of (path h)) img ct"
    by (simp add: handler_respond)
  with a show "fst (handler e ev) = Failure 403 ''Requested transformed image is too big''"
    by (auto simp: respond_def final_response_def sendError_def Let_def)
next
  assume "fst (handler e ev) = Inline bs ct' cc t"
  then show "\<not> imageTooBig e bs"
    by (rule handler_inline)
next
  assume "fst (handler e ev) = Inline bs ct' cc t"
  then have "\<not> imageTooBig e bs"
    by (rule handler_inline)
  then show "\<forall>m. MAX_IMAGE_SIZE e = Num m \<longrightarrow> int (length bs) \<le> m"
    by (auto simp: imageTooBig_def)
qed

theorem oversized_never_inline_witness:
  "fst (handler (example_env False (Some ''cache'') (Some ''3''))
         (get_request ''/images/rio/1.png/width=100'')) =
     Failure 403 ''Requested transformed image is too big''
   \<and> fst (handler (example_env True None (Some ''3''))
         (get_request ''/images/rio/1.png/width=100'')) =
     Failure 403 ''Requested transformed image is too big''
   \<and> fst (handler (example_env True None (Some ''5''))
         (get_request ''/images/rio/1.png/width=100'')) =
     Inline [1, 2, 3, 4, 5] (Some ''image/png'') (Some ''max-age=31622400'')
       ''img-download;dur=12,img-transform;dur=34''
   \<and> \<not> imageTooBig (example_env True None (Some ''5'')) [1, 2, 3, 4, 5]
   \<and> int (length [1, 2, 3, 4, 5 :: 8 word]) \<le> 5"
  using
    oversized_never_inline
      [where ev = "get_request ''/images/rio/1.png/width=100''"
         and h = "\<lparr> http_method = ''GET'', path = ''/images/rio/1.png/width=100'' \<rparr>"
         and e = "example_env False (Some ''cache'') (Some ''3'')"
         and img = "[1, 2, 3, 4, 5]" and ct = "Some ''image/png''"]
    oversized_never_inline
      [where ev = "get_request ''/images/rio/1.png/width=100''"
         and h = "\<lparr> http_method = ''GET'', path = ''/images/rio/1.png/width=100'' \<rparr>"
         and e = "example_env True None (Some ''3'')"
         and img = "[1, 2, 3, 4, 5]" and ct = "Some ''image/png''"]
    oversized_never_inline
      [where ev = "get_request ''/images/rio/1.png/width=100''"
         and h = "\<lparr> http_method = ''GET'', path = ''/images/rio/1.png/width=100'' \<rparr>"
         and e = "example_env True None (Some ''5'')"
         and img = "[1, 2, 3, 4, 5]" and ct = "Some ''image/png''"
         and bs = "[1, 2, 3, 4, 5]" and ct' = "Some ''image/png''"
         and cc = "Some ''max-age=31622400''"
         and t = "''img-download;dur=12,img-transform;dur=34''"]
  by (simp add: run_defs)

text \<open>
  C8. When the transformed image is not longer than the configured maximum, a bucket
  is configured and the put fails, the handler still returns the 200 response with the
  transformed bytes; the failure of the put is passed to \<open>logError\<close> and nothing else
  comes of it.
\<close>

theorem cache_write_failure_tolerated:
  assumes "http ev = Some h" and "transformed e ev = Some (img, ct)"
    and "\<not> imageTooBig e img"
    and "bucket_configured e = Some b"
    and "\<not> s3_send e (putImageCommand e b (originalImagePath_of (path h))
                        (operationsPrefix_of (path h)) img ct)"
  shows "handler e ev =
         (Inline img ct (transformedImageCacheTTL e) (timing_transform e),
          \<lparr> puts = [putImageCommand e b (originalImagePath_of (path h))
                      (operationsPrefix_of (path h)) img ct],
            errors = [''Could not upload transformed image to S3''] \<rparr>)"
proof -
  have "handler e ev =
        respond e (originalImagePath_of (path h)) (operationsPrefix_of (path h)) img ct"
    using assms(1,2) by (rule handler_respond)
  then show ?thesis
    using assms(3,4,5)
    by (simp add: respond_def final_response_def Let_def no_effects_def logError_def)
qed

theorem cache_write_failure_tolerated_witness:
  "\<not> imageTooBig (example_env False (Some ''cache'') (Some ''1000'')) [1, 2, 3, 4, 5]
   \<and> handler (example_env False (Some ''cache'') (Some ''1000''))
       (get_request ''/images/rio/1.png/format=webp,quality=80'')
     = (Inline [1, 2, 3, 4, 5] (Some ''image/webp'') (Some ''max-age=31622400'')
          ''img-download;dur=12,img-transform;dur=34'',
        \<lparr> puts = [\<lparr> Body = [1, 2, 3, 4, 5], Bucket = ''cache'',
                      Key = ''images/rio/1.png/format=webp,quality=80'',
                      ContentType = Some ''image/webp'',
                      Metadata_cache_control = Some ''max-age=31622400'' \<rparr>],
          errors = [''Could not upload transformed image to S3''] \<rparr>)"
  using cache_write_failure_tolerated
    [of "get_request ''/images/rio/1.png/format=webp,quality=80''"
        "\<lparr> http_method = ''GET'', path = ''/images/rio/1.png/format=webp,quality=80'' \<rparr>"
        "example_env False (Some ''cache'') (Some ''1000'')"
        "[1, 2, 3, 4, 5]" "Some ''image/webp''" "''cache''"]
  by (simp add: run_defs)

section \<open>The content type and the engine calls\<close>

lemma get_absent:
  assumes "k \<notin> fst ` set obj"
  shows "get obj k = Undefined"
proof -
  have "map_of obj k = None"
    using assms by (simp add: map_of_eq_None_iff)
  then show ?thesis
    by (simp add: get_def)
qed

lemma resolve_content_type_no_format:
  assumes "\<not> truthy (get ops ''format'')"
  shows "resolve_content_type ops ct =
         (if ct = Some ''image/svg+xml'' then Some ''image/png'' else ct)"
  using assms by (cases "get ops ''format''") (simp_all add: resolve_content_type_def)

lemma resolve_content_type_format:
  assumes "get ops ''format'' = Str f" and "f \<noteq> []"
  shows "resolve_content_type ops ct = Some (fst (format_switch f))"
  using assms by (simp add: resolve_content_type_def)

lemma transform_content_type:
  assumes "transform e src ct md ops = Some (img, ct')"
  shows "ct' = resolve_content_type ops ct"
  using assms by (auto simp: transform_def split: option.splits)

lemma transform_None_iff:
  "transform e src ct md ops = None \<longleftrightarrow> codec e src (sharp_calls ops md) = None"
  by (simp add: transform_def split: option.splits)

lemma format_switch_unknown:
  assumes "f \<notin> {''jpeg'', ''gif'', ''webp'', ''png'', ''avif''}"
  shows "format_switch f = (''image/jpeg'', True)"
  using assms by (simp add: format_switch_def)

lemma last_sharp_calls_format:
  assumes "get ops ''format'' = Str f" and "f \<noteq> []"
  shows "last (sharp_calls ops md) =
         ToFormat f (if truthy (get ops ''quality'') \<and> snd (format_switch f)
                     then Some (parseInt_val (get ops ''quality'')) else None)"
  using assms by (simp add: sharp_calls_def)

lemma hd_sharp_calls: "hd (sharp_calls ops md) = Resize (resizingOptions ops)"
  by (simp add: sharp_calls_def)

text \<open>
  C7, as the claim states it, fails in its last part: for the directive \<open>format=\<close> the
  operation set has the key \<open>format\<close>, and an SVG source still comes out as
  \<open>image/png\<close>.
\<close>

theorem svg_override_counterexample:
  "''format'' \<in> fst ` set (operations ''format='')
   \<and> fst (handler (example_env True None (Some ''1000''))
           (get_request ''/images/rio/logo.svg/format='')) =
     Inline [6, 7] (Some ''image/png'') (Some ''max-age=31622400'')
       ''img-download;dur=12,img-transform;dur=34''"
  by (simp add: run_defs)

text \<open>
  C7, amended. When the directive has no format key, or has one whose value is missing
  or empty, the resolved content type is the one the source declares, except that
  \<open>image/svg+xml\<close> becomes \<open>image/png\<close>. With a format value that is not empty the
  content type is the one the format selects, whatever the source declares.
\<close>

theorem content_type_inherited:
  "(''format'' \<notin> fst ` set (operations d) \<longrightarrow> \<not> truthy (get (operations d) ''format''))
   \<and> (\<not> truthy (get (operations d) ''format'')
        \<and> transform e src ct md (operations d) = Some (img, ct')
      \<longrightarrow> ct' = (if ct = Some ''image/svg+xml'' then Some ''image/png'' else ct))
   \<and> (get (operations d) ''format'' = Str f \<and> f \<noteq> []
        \<and> transform e src ct md (operations d) = Some (img, ct')
      \<longrightarrow> ct' = Some (fst (format_switch f)))"
proof (intro conjI impI)
  assume "''format'' \<notin> fst ` set (operations d)"
  then show "\<not> truthy (get (operations d) ''format'')"
    by (simp add: get_absent)
next
  assume "\<not> truthy (get (operations d) ''format'')
          \<and> transform e src ct md (operations d) = Some (img, ct')"
  then show "ct' = (if ct = Some ''image/svg+xml'' then Some ''image/png'' else ct)"
    using transform_content_type resolve_content_type_no_format by metis
next
  assume "get (operations d) ''format'' = Str f \<and> f \<noteq> []
          \<and> transform e src ct md (operations d) = Some (img, ct')"
  then show "ct' = Some (fst (format_switch f))"
    using transform_content_type resolve_content_type_format by metis
qed

theorem content_type_inherited_witness:
  "''format'' \<notin> fst ` set (operations ''width=100'')
   \<and> \<not> truthy (get (operations ''width=100'') ''format'')
   \<and> transform (example_env True None None) [6, 7] (Some ''image/svg+xml'')
        \<lparr> orientation = None \<rparr> (operations ''width=100'')
       = Some ([6, 7], Some ''image/png'')
   \<and> transform (example_env True None None) [1, 2, 3, 4, 5] (Some ''image/png'')
        \<lparr> orientation = None \<rparr> (operations '''')
       = Some ([1, 2, 3, 4, 5], Some ''image/png'')
   \<and> transform (example_env True None None) [6, 7] (Some ''image/svg+xml'')
        \<lparr> orientation = None \<rparr> (operations ''format=webp'')
       = Some ([6, 7], Some ''image/webp'')"
proof -
  let ?e = "example_env True None None"
  let ?md = "\<lparr> orientation = None \<rparr>"
  have t1: "transform ?e [6, 7] (Some ''image/svg+xml'') ?md (operations ''width=100'')
            = Some ([6, 7], resolve_content_type (operations ''width=100'') (Some ''image/svg+xml''))"
    by (simp add: run_defs)
  have t2: "transform ?e [1, 2, 3, 4, 5] (Some ''image/png'') ?md (operations '''')
            = Some ([1, 2, 3, 4, 5], resolve_content_type (operations '''') (Some ''image/png''))"
    by (simp add: run_defs)
  have t3: "transform ?e [6, 7] (Some ''image/svg+xml'') ?md (operations ''format=webp'')
            = Some ([6, 7], resolve_content_type (operations ''format=webp'') (Some ''image/svg+xml''))"
    by (simp add: run_defs)
  have k1: "''format'' \<notin> fst ` set (operations ''width=100'')"
    by (simp add: operations_def fromEntries_def entry_def)
  have k2: "\<not> truthy (get (operations '''') ''format'')"
    by (simp add: operations_def fromEntries_def entry_def get_def)
  have k3: "get (operations ''format=webp'') ''format'' = Str ''webp''"
    by (simp add: operations_def fromEntries_def entry_def get_def)
  note c1 = content_type_inherited
    [where d = "''width=100''" and e = ?e and src = "[6, 7]" and ct = "Some ''image/svg+xml''"
       and md = ?md and img = "[6, 7]"
       and ct' = "resolve_content_type (operations ''width=100'') (Some ''image/svg+xml'')"]
  note c2 = content_type_inherited
    [where d = "''''" and e = ?e and src = "[1, 2, 3, 4, 5]" and ct = "Some ''image/png''"
       and md = ?md and img = "[1, 2, 3, 4, 5]"
       and ct' = "resolve_content_type (operations '''') (Some ''image/png'')"]
  note c3 = content_type_inherited
    [where d = "''format=webp''" and e = ?e and src = "[6, 7]" and ct = "Some ''image/svg+xml''"
       and md = ?md and img = "[6, 7]" and f = "''webp''"
       and ct' = "resolve_content_type (operations ''format=webp'') (Some ''image/svg+xml'')"]
  from c1 k1 t1 have r1: "\<not> truthy (get (operations ''width=100'') ''format'')"
    and r1': "resolve_content_type (operations ''width=100'') (Some ''image/svg+xml'')
              = Some ''image/png''"
    by simp_all
  from c2 k2 t2 have r2: "resolve_content_type (operations '''') (Some ''image/png'')
                          = Some ''image/png''"
    by simp
  from c3 k3 t3 have r3: "resolve_content_type (operations ''format=webp'') (Some ''image/svg+xml'')
                          = Some ''image/webp''"
    by (simp add: format_switch_def)
  from k1 r1 t1 r1' t2 r2 t3 r3 show ?thesis
    by simp
qed

lemma transformed_content_type:
  assumes "http ev = Some h" and "transformed e ev = Some (img, ct)"
  shows "\<exists>ct0. ct = resolve_content_type (operations (operationsPrefix_of (path h))) ct0"
  using assms
  by (auto simp: transformed_def transform_def split: if_splits option.splits)

lemma respond_inline_content_type:
  assumes "fst (respond e p d img ct) = Inline bs ct' cc t"
  shows "ct' = ct"
  using assms
  by (auto simp: respond_def final_response_def sendError_def Let_def
           split: option.splits if_splits)

lemma respond_puts_content_type:
  assumes "c \<in> set (puts (snd (respond e p d img ct)))"
  shows "ContentType c = ct"
  using assms
  by (auto simp: respond_def final_response_def sendError_def logError_def no_effects_def
                 putImageCommand_def Let_def
           split: option.splits if_splits)

lemma handler_without_transformed:
  assumes "transformed e ev = None"
  shows "puts (snd (handler e ev)) = [] \<and> fst (handler e ev) \<noteq> Inline bs ct cc t"
  using assms
  by (auto simp: handler_def transformed_def sendError_def logError_def no_effects_def Let_def
           split: option.splits if_splits)

text \<open>
  C4, as the claim states it, fails: for the directive \<open>format=\<close> the format value is
  none of the five names, yet a PNG source comes out as \<open>image/png\<close>.
\<close>

theorem unknown_format_counterexample:
  "get (operations ''format='') ''format'' = Str ''''
   \<and> fst (handler (example_env True None (Some ''1000''))
           (get_request ''/images/rio/1.png/format='')) =
     Inline [1, 2, 3, 4, 5] (Some ''image/png'') (Some ''max-age=31622400'')
       ''img-download;dur=12,img-transform;dur=34''"
  by (simp add: run_defs)

text \<open>
  C4, amended. When the format value is not empty and is none of \<open>jpeg\<close>, \<open>gif\<close>,
  \<open>webp\<close>, \<open>png\<close>, \<open>avif\<close>, the resolved content type is \<open>image/jpeg\<close>: every
  transformed result the handler obtains, every 200 response it returns and every put
  command it sends carries that content type. Whether the transformation succeeds for
  such a name is not part of the statement.
\<close>

theorem unknown_format_is_jpeg:
  assumes "http ev = Some h"
    and "get (operations (operationsPrefix_of (path h))) ''format'' = Str f"
    and "f \<noteq> []"
    and "f \<notin> {''jpeg'', ''gif'', ''webp'', ''png'', ''avif''}"
  shows "(\<forall>img ct. transformed e ev = Some (img, ct) \<longrightarrow> ct = Some ''image/jpeg'')
         \<and> (\<forall>bs ct cc t. fst (handler e ev) = Inline bs ct cc t \<longrightarrow> ct = Some ''image/jpeg'')
         \<and> (\<forall>c \<in> set (puts (snd (handler e ev))). ContentType c = Some ''image/jpeg'')"
proof -
  have r: "resolve_content_type (operations (operationsPrefix_of (path h))) ct0
           = Some ''image/jpeg''" for ct0
    using assms(2,3,4) by (simp add: resolve_content_type_format format_switch_unknown)
  have t: "ct = Some ''image/jpeg''" if "transformed e ev = Some (img, ct)" for img ct
    using transformed_content_type [OF assms(1) that] r by auto
  have i: "ct = Some ''image/jpeg''" if "fst (handler e ev) = Inline bs ct cc t" for bs ct cc t
  proof (cases "transformed e ev")
    case None
    with that show ?thesis
      using handler_without_transformed by blast
  next
    case (Some p)
    obtain img ct1 where p: "p = (img, ct1)" by (cases p)
    have "handler e ev =
          respond e (originalImagePath_of (path h)) (operationsPrefix_of (path h)) img ct1"
      using assms(1) Some p by (simp add: handler_respond)
    with that have "ct = ct1"
      using respond_inline_content_type by metis
    with t Some p show ?thesis by simp
  qed
  have c: "ContentType c = Some ''image/jpeg''" if "c \<in> set (puts (snd (handler e ev)))" for c
  proof (cases "transformed e ev")
    case None
    with that show ?thesis
      using handler_without_transformed [of e ev] by simp
  next
    case (Some p)
    obtain img ct1 where p: "p = (img, ct1)" by (cases p)
    have "handler e ev =
          respond e (originalImagePath_of (path h)) (operationsPrefix_of (path h)) img ct1"
      using assms(1) Some p by (simp add: handler_respond)
    with that have "ContentType c = ct1"
      using respond_puts_content_type by metis
    with t Some p show ?thesis by simp
  qed
  from t i c show ?thesis by blast
qed

theorem unknown_format_is_jpeg_witness:
  "get (operations ''format=jpg,quality=80'') ''format'' = Str ''jpg''
   \<and> transformed (example_env True (Some ''cache'') (Some ''1000''))
         (get_request ''/images/rio/1.png/format=jpg,quality=80'')
       = Some ([1, 2, 3, 4, 5], Some ''image/jpeg'')
   \<and> fst (handler (example_env True (Some ''cache'') (Some ''1000''))
           (get_request ''/images/rio/1.png/format=jpg,quality=80''))
       = Inline [1, 2, 3, 4, 5] (Some ''image/jpeg'') (Some ''max-age=31622400'')
           ''img-download;dur=12,img-transform;dur=34,img-upload;dur=5''
   \<and> map ContentType (puts (snd (handler (example_env True (Some ''cache'') (Some ''1000''))
           (get_request ''/images/rio/1.png/format=jpg,quality=80''))))
       = [Some ''image/jpeg'']"
proof -
  let ?e = "example_env True (Some ''cache'') (Some ''1000'')"
  let ?ev = "get_request ''/images/rio/1.png/format=jpg,quality=80''"
  let ?h = "\<lparr> http_method = ''GET'', path = ''/images/rio/1.png/format=jpg,quality=80'' \<rparr>"
  have h: "http ?ev = Some ?h"
    by (simp add: get_request_def)
  have g: "get (operations (operationsPrefix_of (path ?h))) ''format'' = Str ''jpg''"
    by (simp add: operationsPrefix_of_def operations_def fromEntries_def entry_def get_def)
  have g': "get (operations ''format=jpg,quality=80'') ''format'' = Str ''jpg''"
    by (simp add: operations_def fromEntries_def entry_def get_def)
  have tr: "\<exists>ct. transformed ?e ?ev = Some ([1, 2, 3, 4, 5], ct)"
    by (simp add: run_defs)
  have hd: "\<exists>ct. handler ?e ?ev =
            (Inline [1, 2, 3, 4, 5] ct (Some ''max-age=31622400'')
               ''img-download;dur=12,img-transform;dur=34,img-upload;dur=5'',
             \<lparr> puts = [\<lparr> Body = [1, 2, 3, 4, 5], Bucket = ''cache'',
                           Key = ''images/rio/1.png/format=jpg,quality=80'',
                           ContentType = ct,
                           Metadata_cache_control = Some ''max-age=31622400'' \<rparr>],
               errors = [] \<rparr>)"
    by (simp add: run_defs)
  note u = unknown_format_is_jpeg [of ?ev ?h "''jpg''" ?e, OF h g]
  from u tr have 1: "transformed ?e ?ev = Some ([1, 2, 3, 4, 5], Some ''image/jpeg'')"
    by auto
  from hd obtain ct where hc: "handler ?e ?ev =
            (Inline [1, 2, 3, 4, 5] ct (Some ''max-age=31622400'')
               ''img-download;dur=12,img-transform;dur=34,img-upload;dur=5'',
             \<lparr> puts = [\<lparr> Body = [1, 2, 3, 4, 5], Bucket = ''cache'',
                           Key = ''images/rio/1.png/format=jpg,quality=80'',
                           ContentType = ct,
                           Metadata_cache_control = Some ''max-age=31622400'' \<rparr>],
               errors = [] \<rparr>)"
    by blast
  from u hc have "ct = Some ''image/jpeg''"
    by simp
  with hc g' 1 show ?thesis
    by simp
qed

section \<open>The quality value\<close>

lemma quality_unused:
  assumes "get o1 ''width'' = get o2 ''width''"
    and "get o1 ''height'' = get o2 ''height''"
    and "get o1 ''format'' = get o2 ''format''"
    and "get o1 ''format'' = Str ''png'' \<or> get o1 ''format'' = Str ''gif''"
  shows "sharp_calls o1 md = sharp_calls o2 md
         \<and> resolve_content_type o1 ct = resolve_content_type o2 ct"
  using assms
  by (auto simp: sharp_calls_def resizingOptions_def resolve_content_type_def format_switch_def)

lemma transform_same_calls:
  assumes "sharp_calls o1 md = sharp_calls o2 md
           \<and> resolve_content_type o1 ct = resolve_content_type o2 ct"
  shows "transform e src ct md o1 = transform e src ct md o2"
  using assms by (simp add: transform_def split: option.splits)

lemma operations_quality_token:
  assumes "\<forall>t \<in> set (pre @ post). CHR '','' \<notin> set t" and "CHR '','' \<notin> set q"
  shows "operations (join '','' (pre @ [''quality='' @ q] @ post)) =
         fromEntries (map entry pre @ (''quality'', snd (entry (''quality='' @ q))) # map entry post)"
proof -
  have "\<forall>t \<in> set (pre @ [''quality='' @ q] @ post). CHR '','' \<notin> set t"
    using assms by auto
  then have "split_on CHR '','' (join [CHR '',''] (pre @ [''quality='' @ q] @ post))
             = pre @ [''quality='' @ q] @ post"
    by (intro split_on_join) simp_all
  moreover have "fst (entry (''quality='' @ q)) = ''quality''"
    using fst_entry [of "''quality''" q] by simp
  then have "entry (''quality='' @ q) = (''quality'', snd (entry (''quality='' @ q)))"
    by (metis prod.collapse)
  ultimately show ?thesis
    by (simp add: operations_def)
qed

lemma get_operations_quality_token:
  assumes "\<forall>t \<in> set (pre @ post). CHR '','' \<notin> set t" and "CHR '','' \<notin> set q"
    and "k \<noteq> ''quality''"
  shows "get (operations (join '','' (pre @ [''quality='' @ q] @ post))) k =
         get (fromEntries (map entry pre @ map entry post)) k"
  using get_fromEntries_other [OF assms(3)]
  by (simp only: operations_quality_token [OF assms(1,2)])

text \<open>
  C6. Take a directive with a token \<open>quality=q1\<close> whose format resolves to \<open>png\<close> or
  \<open>gif\<close>, and the same directive with \<open>quality=q2\<close> in that place. For the same source
  the engine is given the same chain of calls, so the transformation gives the same
  bytes and the same content type (or fails alike). The engine is a function of the
  source bytes and the chain of calls.
\<close>

theorem quality_ignored_when_not_lossy:
  assumes "\<forall>t \<in> set (pre @ post). CHR '','' \<notin> set t"
    and "CHR '','' \<notin> set q1" and "CHR '','' \<notin> set q2"
    and "get (operations (join '','' (pre @ [''quality='' @ q1] @ post))) ''format'' = Str ''png''
         \<or> get (operations (join '','' (pre @ [''quality='' @ q1] @ post))) ''format'' = Str ''gif''"
  shows "transform e src ct md (operations (join '','' (pre @ [''quality='' @ q1] @ post))) =
         transform e src ct md (operations (join '','' (pre @ [''quality='' @ q2] @ post)))"
proof -
  let ?o1 = "operations (join '','' (pre @ [''quality='' @ q1] @ post))"
  let ?o2 = "operations (join '','' (pre @ [''quality='' @ q2] @ post))"
  have same: "get ?o1 k = get ?o2 k" if "k \<noteq> ''quality''" for k
    using get_operations_quality_token [OF assms(1,2) that]
          get_operations_quality_token [OF assms(1,3) that]
    by simp
  have w: "get ?o1 ''width'' = get ?o2 ''width''"
    by (rule same) simp
  have h: "get ?o1 ''height'' = get ?o2 ''height''"
    by (rule same) simp
  have f: "get ?o1 ''format'' = get ?o2 ''format''"
    by (rule same) simp
  have "sharp_calls ?o1 md = sharp_calls ?o2 md
        \<and> resolve_content_type ?o1 ct = resolve_content_type ?o2 ct"
    using w h f assms(4) by (rule quality_unused)
  then show ?thesis
    by (rule transform_same_calls)
qed

theorem quality_ignored_when_not_lossy_witness:
  "get (operations ''format=png,quality=80,width=100'') ''format'' = Str ''png''
   \<and> transform (example_env True None None) [1, 2, 3, 4, 5] (Some ''image/jpeg'')
       \<lparr> orientation = Some 6 \<rparr> (operations ''format=png,quality=80,width=100'')
     = transform (example_env True None None) [1, 2, 3, 4, 5] (Some ''image/jpeg'')
       \<lparr> orientation = Some 6 \<rparr> (operations ''format=png,quality=10,width=100'')"
proof -
  have g: "get (operations ''format=png,quality=80,width=100'') ''format'' = Str ''png''"
    by (simp add: operations_def fromEntries_def entry_def get_def)
  show ?thesis
    using quality_ignored_when_not_lossy
      [of "[''format=png'']" "[''width=100'']" "''80''" "''10''"
          "example_env True None None" "[1, 2, 3, 4, 5]" "Some ''image/jpeg''"
          "\<lparr> orientation = Some 6 \<rparr>"]
      g
    by simp
qed

lemma respond_not_500: "fst (respond e p d img ct) \<noteq> Failure 500 m"
  by (auto simp: respond_def final_response_def sendError_def Let_def
           split: option.splits if_splits)

lemma handler_transform_failure:
  assumes "http ev = Some h" and "http_method h = ''GET''"
    and "download e (imageUrl_of (originalImagePath_of (path h))) = Some (src, ct)"
    and "metadata e src = Some md"
  shows "handler e ev = (Failure 500 ''error transforming image'',
                         \<lparr> puts = [], errors = [''error transforming image''] \<rparr>)
         \<longleftrightarrow> codec e src (sharp_calls (operations (operationsPrefix_of (path h))) md) = None"
proof (cases "codec e src (sharp_calls (operations (operationsPrefix_of (path h))) md)")
  case None
  then have "transform e src ct md (operations (operationsPrefix_of (path h))) = None"
    by (simp add: transform_def)
  with assms None show ?thesis
    by (simp add: handler_def Let_def sendError_def logError_def no_effects_def)
next
  case (Some img)
  then have "transform e src ct md (operations (operationsPrefix_of (path h)))
             = Some (img, resolve_content_type (operations (operationsPrefix_of (path h))) ct)"
    by (simp add: transform_def)
  with assms have "handler e ev =
        respond e (originalImagePath_of (path h)) (operationsPrefix_of (path h)) img
          (resolve_content_type (operations (operationsPrefix_of (path h))) ct)"
    by (simp add: handler_def Let_def)
  then have "fst (handler e ev) \<noteq> Failure 500 ''error transforming image''"
    by (simp add: respond_not_500)
  with Some show ?thesis
    by auto
qed

lemma no_format_call:
  assumes "\<not> truthy (get ops ''format'')"
  shows "ToFormat f q \<notin> set (sharp_calls ops md)"
  using assms
  by (cases "get ops ''format''") (auto simp: sharp_calls_def split: option.splits)

text \<open>
  C1, as the claim states it, fails: with \<open>width=abc\<close> the engine is asked to resize to
  the width \<open>NaN\<close>, which is not the call made when the field is left out, and with an
  engine that checks its parameters the request ends with status 500 where the
  directive without the field gives the 200 response.
\<close>

theorem malformed_field_counterexample:
  "sharp_calls (operations ''width=abc,height=50'') \<lparr> orientation = None \<rparr>
     = [Resize \<lparr> width = Some NaN, height = Some (Num 50) \<rparr>]
   \<and> sharp_calls (operations ''height=50'') \<lparr> orientation = None \<rparr>
     = [Resize \<lparr> width = None, height = Some (Num 50) \<rparr>]
   \<and> fst (handler (example_env True None (Some ''1000''))
           (get_request ''/images/rio/1.png/width=abc,height=50'')) =
     Failure 500 ''error transforming image''
   \<and> fst (handler (example_env True None (Some ''1000''))
           (get_request ''/images/rio/1.png/height=50'')) =
     Inline [1, 2, 3, 4, 5] (Some ''image/png'') (Some ''max-age=31622400'')
       ''img-download;dur=12,img-transform;dur=34''"
  by (simp add: run_defs)

text \<open>
  C1, amended. Take a GET request whose source is fetched and read, and let the value
  of width, height or quality in its directive be a string in which \<open>parseInt\<close> finds
  no number. If the string is empty the field is left out of the engine calls.
  Otherwise the field is passed to the engine as \<open>NaN\<close>: in the resize options for
  width and height, and as the quality of the format call when a lossy format is
  selected; with a format that is not lossy the format call has no quality, and with no
  format there is no format call at all. The resize call is always the first call. The
  handler returns status 500 with the message \<open>error transforming image\<close>, having sent
  no put command, exactly when the engine throws on this chain of calls.
\<close>

theorem malformed_field_forwarded:
  assumes "http ev = Some h" and "http_method h = ''GET''"
    and "download e (imageUrl_of (originalImagePath_of (path h))) = Some (src, ct)"
    and "metadata e src = Some md"
    and "get (operations (operationsPrefix_of (path h))) k = Str v"
    and "parseInt v = NaN"
  shows "(k = ''width'' \<longrightarrow>
            width (resizingOptions (operations (operationsPrefix_of (path h))))
              = (if v = [] then None else Some NaN))
       \<and> (k = ''height'' \<longrightarrow>
            height (resizingOptions (operations (operationsPrefix_of (path h))))
              = (if v = [] then None else Some NaN))
       \<and> (k = ''quality''
            \<and> get (operations (operationsPrefix_of (path h))) ''format'' = Str f \<and> f \<noteq> [] \<longrightarrow>
            last (sharp_calls (operations (operationsPrefix_of (path h))) md) =
              ToFormat f (if v \<noteq> [] \<and> snd (format_switch f) then Some NaN else None))
       \<and> (k = ''quality''
            \<and> \<not> truthy (get (operations (operationsPrefix_of (path h))) ''format'') \<longrightarrow>
            (\<forall>f' q. ToFormat f' q
                     \<notin> set (sharp_calls (operations (operationsPrefix_of (path h))) md)))
       \<and> hd (sharp_calls (operations (operationsPrefix_of (path h))) md)
           = Resize (resizingOptions (operations (operationsPrefix_of (path h))))
       \<and> (handler e ev = (Failure 500 ''error transforming image'',
                           \<lparr> puts = [], errors = [''error transforming image''] \<rparr>)
            \<longleftrightarrow> codec e src (sharp_calls (operations (operationsPrefix_of (path h))) md)
                 = None)"
proof (intro conjI impI)
  assume "k = ''width''"
  with assms(5,6)
  show "width (resizingOptions (operations (operationsPrefix_of (path h))))
        = (if v = [] then None else Some NaN)"
    by (simp add: resizingOptions_def)
next
  assume "k = ''height''"
  with assms(5,6)
  show "height (resizingOptions (operations (operationsPrefix_of (path h))))
        = (if v = [] then None else Some NaN)"
    by (simp add: resizingOptions_def)
next
  assume "k = ''quality''
          \<and> get (operations (operationsPrefix_of (path h))) ''format'' = Str f \<and> f \<noteq> []"
  with assms(5,6)
  show "last (sharp_calls (operations (operationsPrefix_of (path h))) md) =
          ToFormat f (if v \<noteq> [] \<and> snd (format_switch f) then Some NaN else None)"
    by (simp add: last_sharp_calls_format)
next
  assume "k = ''quality''
          \<and> \<not> truthy (get (operations (operationsPrefix_of (path h))) ''format'')"
  then show "\<forall>f' q. ToFormat f' q
                     \<notin> set (sharp_calls (operations (operationsPrefix_of (path h))) md)"
    by (simp add: no_format_call)
next
  show "hd (sharp_calls (operations (operationsPrefix_of (path h))) md)
        = Resize (resizingOptions (operations (operationsPrefix_of (path h))))"
    by (rule hd_sharp_calls)
next
  show "handler e ev = (Failure 500 ''error transforming image'',
                        \<lparr> puts = [], errors = [''error transforming image''] \<rparr>)
        \<longleftrightarrow> codec e src (sharp_calls (operations (operationsPrefix_of (path h))) md) = None"
    using assms(1-4) by (rule handler_transform_failure)
qed

lemma example_source:
  assumes "originalImagePath_of p = ''images/rio/1.png''"
  shows "download (example_env s b l) (imageUrl_of (originalImagePath_of p))
         = Some ([1, 2, 3, 4, 5], Some ''image/png'')"
  using assms
  by (simp add: download_def example_env_def example_fetch_def imageUrl_of_def BASE_URL_def
                replace_all_def)

theorem malformed_field_forwarded_witness:
  "handler (example_env True (Some ''cache'') (Some ''1000''))
     (get_request ''/images/rio/1.png/width=abc'')
     = (Failure 500 ''error transforming image'',
        \<lparr> puts = [], errors = [''error transforming image''] \<rparr>)
   \<and> width (resizingOptions (operations ''width=abc'')) = Some NaN
   \<and> height (resizingOptions (operations ''height='')) = None
   \<and> handler (example_env True (Some ''cache'') (Some ''1000''))
       (get_request ''/images/rio/1.png/height='')
     \<noteq> (Failure 500 ''error transforming image'',
        \<lparr> puts = [], errors = [''error transforming image''] \<rparr>)
   \<and> last (sharp_calls (operations ''format=jpeg,quality=high'') \<lparr> orientation = None \<rparr>)
       = ToFormat ''jpeg'' (Some NaN)
   \<and> handler (example_env True (Some ''cache'') (Some ''1000''))
       (get_request ''/images/rio/1.png/format=jpeg,quality=high'')
     = (Failure 500 ''error transforming image'',
        \<lparr> puts = [], errors = [''error transforming image''] \<rparr>)
   \<and> (\<forall>f q. ToFormat f q
          \<notin> set (sharp_calls (operations ''quality=high'') \<lparr> orientation = None \<rparr>))"
proof -
  let ?e = "example_env True (Some ''cache'') (Some ''1000'')"
  let ?md = "\<lparr> orientation = None \<rparr>"
  let ?src = "[1, 2, 3, 4, 5] :: bytes"
  let ?ct = "Some ''image/png''"
  have p: "parseInt ''abc'' = NaN" "parseInt '''' = NaN" "parseInt ''high'' = NaN"
    by (simp_all add: parseInt_def strip_sign_def strip_prefix_def ws1_def ws2_def ws3_def
          digit_val_def)
  have m: "metadata ?e ?src = Some ?md"
    by (simp add: example_env_def)
  have path:
    "originalImagePath_of ''/images/rio/1.png/width=abc'' = ''images/rio/1.png''"
    "originalImagePath_of ''/images/rio/1.png/height='' = ''images/rio/1.png''"
    "originalImagePath_of ''/images/rio/1.png/format=jpeg,quality=high'' = ''images/rio/1.png''"
    "originalImagePath_of ''/images/rio/1.png/quality=high'' = ''images/rio/1.png''"
    by (simp_all add: originalImagePath_of_def)
  have dir:
    "operationsPrefix_of ''/images/rio/1.png/width=abc'' = ''width=abc''"
    "operationsPrefix_of ''/images/rio/1.png/height='' = ''height=''"
    "operationsPrefix_of ''/images/rio/1.png/format=jpeg,quality=high''
       = ''format=jpeg,quality=high''"
    "operationsPrefix_of ''/images/rio/1.png/quality=high'' = ''quality=high''"
    by (simp_all add: operationsPrefix_of_def)
  have g: "get (operations ''width=abc'') ''width'' = Str ''abc''"
    "get (operations ''height='') ''height'' = Str ''''"
    "get (operations ''format=jpeg,quality=high'') ''quality'' = Str ''high''"
    "get (operations ''format=jpeg,quality=high'') ''format'' = Str ''jpeg''"
    "get (operations ''quality=high'') ''quality'' = Str ''high''"
    "\<not> truthy (get (operations ''quality=high'') ''format'')"
    by (simp_all add: operations_def fromEntries_def entry_def get_def)
  have c: "codec ?e ?src (sharp_calls (operations ''width=abc'') ?md) = None"
    "codec ?e ?src (sharp_calls (operations ''height='') ?md) \<noteq> None"
    "codec ?e ?src (sharp_calls (operations ''format=jpeg,quality=high'') ?md) = None"
    by (simp_all add: run_defs)
  note w = malformed_field_forwarded
    [where ev = "get_request ''/images/rio/1.png/width=abc''"
       and h = "\<lparr> http_method = ''GET'', path = ''/images/rio/1.png/width=abc'' \<rparr>"
       and e = ?e and src = ?src and ct = ?ct and md = ?md
       and k = "''width''" and v = "''abc''"]
  note h = malformed_field_forwarded
    [where ev = "get_request ''/images/rio/1.png/height=''"
       and h = "\<lparr> http_method = ''GET'', path = ''/images/rio/1.png/height='' \<rparr>"
       and e = ?e and src = ?src and ct = ?ct and md = ?md
       and k = "''height''" and v = "''''"]
  note q = malformed_field_forwarded
    [where ev = "get_request ''/images/rio/1.png/format=jpeg,quality=high''"
       and h = "\<lparr> http_method = ''GET'',
                  path = ''/images/rio/1.png/format=jpeg,quality=high'' \<rparr>"
       and e = ?e and src = ?src and ct = ?ct and md = ?md
       and k = "''quality''" and v = "''high''" and f = "''jpeg''"]
  note n = malformed_field_forwarded
    [where ev = "get_request ''/images/rio/1.png/quality=high''"
       and h = "\<lparr> http_method = ''GET'', path = ''/images/rio/1.png/quality=high'' \<rparr>"
       and e = ?e and src = ?src and ct = ?ct and md = ?md
       and k = "''quality''" and v = "''high''"]
  from w p(1) m g(1) c(1) example_source [OF path(1)]
  have 1: "handler ?e (get_request ''/images/rio/1.png/width=abc'')
           = (Failure 500 ''error transforming image'',
              \<lparr> puts = [], errors = [''error transforming image''] \<rparr>)"
    and 2: "width (resizingOptions (operations ''width=abc'')) = Some NaN"
    by (simp_all add: get_request_def dir)
  from h p(2) m g(2) c(2) example_source [OF path(2)]
  have 3: "height (resizingOptions (operations ''height='')) = None"
    and 4: "handler ?e (get_request ''/images/rio/1.png/height='')
            \<noteq> (Failure 500 ''error transforming image'',
               \<lparr> puts = [], errors = [''error transforming image''] \<rparr>)"
    by (simp_all add: get_request_def dir)
  from q p(3) m g(3,4) c(3) example_source [OF path(3)]
  have 5: "last (sharp_calls (operations ''format=jpeg,quality=high'') ?md)
           = ToFormat ''jpeg'' (Some NaN)"
    and 6: "handler ?e (get_request ''/images/rio/1.png/format=jpeg,quality=high'')
            = (Failure 500 ''error transforming image'',
               \<lparr> puts = [], errors = [''error transforming image''] \<rparr>)"
    by (simp_all add: get_request_def dir format_switch_def)
  from n p(3) m g(5,6) example_source [OF path(4)]
  have 7: "\<forall>f q. ToFormat f q \<notin> set (sharp_calls (operations ''quality=high'') ?md)"
    by (simp add: get_request_def dir)
  from 1 2 3 4 5 6 7 show ?thesis
    by blast
qed

end
